theory Spec2Isabelle
  imports Main
begin

section \<open>Data model (habits/models.py)\<close>

text \<open>
  A \<open>TimeField\<close> value is a Python \<open>datetime.time\<close>; \<open>timezone.now()\<close> is a
  \<open>datetime\<close>, whose \<open>.time()\<close> is its clock part. The date is kept as a day number.
\<close>

record time_of_day =
  hour :: nat
  minute :: nat
  second :: nat
  microsecond :: nat

record datetime =
  day_number :: int
  clock :: time_of_day

text \<open>
  \<open>UserProfile\<close>: both character fields are declared \<open>blank=True, null=True\<close>, so each
  holds \<open>None\<close>, the empty string or a text. \<open>User\<close> is Django's; the reverse side of the
  one-to-one relation, \<open>user.profile\<close>, is the profile or nothing.
\<close>

record user_profile =
  telegram_id :: "string option"
  telegram_username :: "string option"

record user_rec =
  user_id :: nat
  username :: string
  is_active :: bool
  profile :: "user_profile option"

text \<open>
  \<open>Habit\<close>, with the fields in the order of the class body. \<open>related_habit\<close> is a
  nullable foreign key to \<open>Habit\<close> itself: on an instance it reads as the referenced
  instance or \<open>None\<close>. Python integers are unbounded, hence \<open>int\<close>.
\<close>

datatype habit = Habit
  (habit_id: nat)
  (user: user_rec)
  (place: "string option")
  (time: time_of_day)
  (action: string)
  (is_pleasant: bool)
  (related_habit: "habit option")
  (frequency: int)
  (reward: "string option")
  (duration: int)
  (is_public: bool)
  (created_at: datetime)

text \<open>
  The four \<open>ValidationError\<close>s raised by \<open>Habit.clean\<close> and by
  \<open>HabitSerializer.validate\<close>, in the order of the \<open>raise\<close> statements. The two
  functions word the third and fourth message slightly differently; the kind is the same.
\<close>

datatype validation_error =
  PleasantHabitHasReward
  | PleasantHabitHasRelated
  | RewardAndRelatedBothSet
  | RelatedHabitNotPleasant

text \<open>
  Python truth value of a nullable text (\<open>if self.reward:\<close>): \<open>None\<close> and the empty
  string are false, every other string is true. A model instance has no \<open>__bool__\<close> or
  \<open>__len__\<close>, so \<open>if self.related_habit:\<close> is true exactly when it is not \<open>None\<close>.
\<close>

definition truthy_str :: "string option \<Rightarrow> bool" where
  "truthy_str s = (case s of None \<Rightarrow> False | Some t \<Rightarrow> t \<noteq> [])"

definition truthy_obj :: "'a option \<Rightarrow> bool" where
  "truthy_obj r = (case r of None \<Rightarrow> False | Some _ \<Rightarrow> True)"

text \<open>
  The last test of both validators, \<open>related_habit and not related_habit.is_pleasant\<close>.
\<close>

definition related_not_pleasant :: "habit option \<Rightarrow> bool" where
  "related_not_pleasant r = (case r of None \<Rightarrow> False | Some x \<Rightarrow> \<not> is_pleasant x)"

text \<open>\<open>Habit.clean\<close> (models.py, lines 51 to 69): \<open>Inl\<close> is the raised error.\<close>

definition clean :: "habit \<Rightarrow> validation_error + unit" where
  "clean h =
     (if is_pleasant h \<and> truthy_str (reward h) then Inl PleasantHabitHasReward
      else if is_pleasant h \<and> truthy_obj (related_habit h) then Inl PleasantHabitHasRelated
      else if \<not> is_pleasant h \<and> (truthy_str (reward h) \<and> truthy_obj (related_habit h))
        then Inl RewardAndRelatedBothSet
      else if related_not_pleasant (related_habit h) then Inl RelatedHabitNotPleasant
      else Inr ())"

section \<open>The serializer (habits/serializers.py)\<close>

text \<open>
  The \<open>data\<close> dictionary handed to \<open>HabitSerializer.validate\<close>: one entry per writable
  field, \<open>None\<close> when the key is not in the dictionary (a partial update, or an optional
  field left out). \<open>user\<close> is read-only, \<open>id\<close> and \<open>created_at\<close> are not editable.
\<close>

record habit_data =
  d_place :: "string option option"
  d_time :: "time_of_day option"
  d_action :: "string option"
  d_is_pleasant :: "bool option"
  d_related_habit :: "habit option option"
  d_frequency :: "int option"
  d_reward :: "string option option"
  d_duration :: "int option"
  d_is_public :: "bool option"

text \<open>\<open>data.get(key)\<close> on a nullable entry: a missing key reads as \<open>None\<close>.\<close>

definition dict_get :: "'a option option \<Rightarrow> 'a option" where
  "dict_get e = (case e of None \<Rightarrow> None | Some v \<Rightarrow> v)"

text \<open>\<open>data.get(key, default)\<close>.\<close>

definition dict_get_default :: "'a option \<Rightarrow> 'a \<Rightarrow> 'a" where
  "dict_get_default e d = (case e of None \<Rightarrow> d | Some v \<Rightarrow> v)"

text \<open>\<open>HabitSerializer.validate\<close> (serializers.py, lines 15 to 40).\<close>

definition validate :: "habit_data \<Rightarrow> validation_error + habit_data" where
  "validate data =
     (let is_pleasant_v = dict_get_default (d_is_pleasant data) False;
          reward_v = dict_get (d_reward data);
          related_habit_v = dict_get (d_related_habit data)
      in if is_pleasant_v \<and> truthy_str reward_v then Inl PleasantHabitHasReward
         else if is_pleasant_v \<and> truthy_obj related_habit_v then Inl PleasantHabitHasRelated
         else if \<not> is_pleasant_v \<and> (truthy_str reward_v \<and> truthy_obj related_habit_v)
           then Inl RewardAndRelatedBothSet
         else if related_not_pleasant related_habit_v then Inl RelatedHabitNotPleasant
         else Inr data)"

text \<open>
  What the framework does with accepted data on an update (\<open>ModelSerializer.update\<close>):
  every key of the dictionary is set on the stored instance, the other fields keep
  their stored value, and the instance is saved. \<open>Model.save\<close> does not call \<open>clean\<close>.
\<close>

definition update_instance :: "habit \<Rightarrow> habit_data \<Rightarrow> habit" where
  "update_instance h data =
     Habit (habit_id h) (user h)
       (dict_get_default (d_place data) (place h))
       (dict_get_default (d_time data) (time h))
       (dict_get_default (d_action data) (action h))
       (dict_get_default (d_is_pleasant data) (is_pleasant h))
       (dict_get_default (d_related_habit data) (related_habit h))
       (dict_get_default (d_frequency data) (frequency h))
       (dict_get_default (d_reward data) (reward h))
       (dict_get_default (d_duration data) (duration h))
       (dict_get_default (d_is_public data) (is_public h))
       (created_at h)"

text \<open>
  The update path of \<open>HabitViewSet\<close> (a \<open>ModelViewSet\<close>): \<open>validate\<close> runs on the
  submitted dictionary, and only accepted data reaches the store.
\<close>

definition api_update :: "habit \<Rightarrow> habit_data \<Rightarrow> validation_error + habit" where
  "api_update h data =
     (case validate data of Inl e \<Rightarrow> Inl e | Inr d \<Rightarrow> Inr (update_instance h d))"

text \<open>
  The create path (\<open>perform_create\<close> in views.py calls \<open>serializer.save(user=...)\<close>): the
  instance is built from the dictionary, and a key that is not there takes the default
  of its field declaration in models.py. \<open>time\<close>, \<open>action\<close> and \<open>duration\<close> have no
  default and are required: without them there is no instance.
\<close>

definition create_instance :: "nat \<Rightarrow> user_rec \<Rightarrow> datetime \<Rightarrow> habit_data \<Rightarrow> habit option" where
  "create_instance new_id owner now data =
     (case d_time data of None \<Rightarrow> None
      | Some tm \<Rightarrow>
     (case d_action data of None \<Rightarrow> None
      | Some act \<Rightarrow>
     (case d_duration data of None \<Rightarrow> None
      | Some dur \<Rightarrow>
          Some (Habit new_id owner
                  (dict_get (d_place data)) tm act
                  (dict_get_default (d_is_pleasant data) False)
                  (dict_get (d_related_habit data))
                  (dict_get_default (d_frequency data) 1)
                  (dict_get (d_reward data)) dur
                  (dict_get_default (d_is_public data) False)
                  now))))"

section \<open>Field validation (the declarations of habits/models.py)\<close>

text \<open>
  The validators the field declarations name. A validator passes or raises; the
  functions below say when it passes. \<open>PositiveIntegerField\<close> is Django's: besides the
  declared validators the field checks the range of its column type, whose lower end
  is 0 (the framework accepts 0 in a \<open>PositiveIntegerField\<close>), unless a declared
  \<open>MinValueValidator\<close> is at least as strict.
\<close>

definition MinValueValidator :: "int \<Rightarrow> int \<Rightarrow> bool" where
  "MinValueValidator limit_value v = (\<not> v < limit_value)"

definition MaxValueValidator :: "int \<Rightarrow> int \<Rightarrow> bool" where
  "MaxValueValidator limit_value v = (\<not> v > limit_value)"

definition MaxLengthValidator :: "nat \<Rightarrow> string \<Rightarrow> bool" where
  "MaxLengthValidator limit_value v = (\<not> length v > limit_value)"

definition positive_integer_field_min :: int where
  "positive_integer_field_min = 0"

datatype clean_error = FieldError string | NonFieldError validation_error

text \<open>
  \<open>CharField(max_length=200, blank=True, null=True)\<close>: an empty value (\<open>None\<close> or the
  empty string) is not validated at all.
\<close>

definition optional_char_field :: "string \<Rightarrow> string option \<Rightarrow> clean_error list" where
  "optional_char_field name v =
     (case v of None \<Rightarrow> []
      | Some t \<Rightarrow> if t = [] then []
                  else if MaxLengthValidator 200 t then [] else [FieldError name])"

text \<open>\<open>CharField(max_length=200)\<close>: blank is an error.\<close>

definition required_char_field :: "string \<Rightarrow> string \<Rightarrow> clean_error list" where
  "required_char_field name t =
     (if t = [] then [FieldError name]
      else if MaxLengthValidator 200 t then [] else [FieldError name])"

text \<open>
  \<open>frequency = PositiveIntegerField(default=1, validators=[MinValueValidator(1),
  MaxValueValidator(7)])\<close> and \<open>duration = PositiveIntegerField(validators=
  [MaxValueValidator(2)])\<close>.
\<close>

definition frequency_field :: "int \<Rightarrow> clean_error list" where
  "frequency_field v =
     (if MinValueValidator 1 v \<and> MaxValueValidator 7 v then [] else [FieldError ''frequency''])"

definition duration_field :: "int \<Rightarrow> clean_error list" where
  "duration_field v =
     (if MaxValueValidator 2 v \<and> MinValueValidator positive_integer_field_min v then []
      else [FieldError ''duration''])"

text \<open>\<open>Model.clean_fields\<close> over the declared fields, in declaration order.\<close>

definition clean_fields :: "habit \<Rightarrow> clean_error list" where
  "clean_fields h =
     optional_char_field ''place'' (place h) @ required_char_field ''action'' (action h)
     @ frequency_field (frequency h) @ optional_char_field ''reward'' (reward h)
     @ duration_field (duration h)"

text \<open>
  \<open>Model.full_clean\<close>, which the tests call: the field errors and the error of
  \<open>clean\<close> are collected, and the instance is accepted when there is none.
\<close>

definition full_clean :: "habit \<Rightarrow> clean_error list + unit" where
  "full_clean h =
     (let errors = clean_fields h @ (case clean h of Inl e \<Rightarrow> [NonFieldError e] | Inr _ \<Rightarrow> [])
      in if errors = [] then Inr () else Inl errors)"

section \<open>The transport (habits/tasks.py, send_telegram_message)\<close>

text \<open>
  The text of a message is a fixed template with interpolated values, so a message is
  modelled by the values: for the reminder the hour and minute of \<open>strftime('%H:%M')\<close>,
  \<open>place or <placeholder>\<close>, the action, the duration and \<open>reward or <placeholder>\<close>
  (\<open>None\<close> stands for the placeholder); for the weekly report the user name and count.
\<close>

datatype message =
  Reminder nat nat "string option" string int "string option"
  | WeeklyReport string nat

definition or_placeholder :: "string option \<Rightarrow> string option" where
  "or_placeholder v = (if truthy_str v then v else None)"

record request =
  req_url :: string
  req_chat_id :: string
  req_text :: message
  req_parse_mode :: string
  req_timeout :: nat

text \<open>
  What \<open>requests.post\<close> can do: return a response (status code and body), or raise
  \<open>Timeout\<close>, another \<open>RequestException\<close>, or any other \<open>Exception\<close>. The network is
  a collaborator with a state of its own, of any type \<open>'w\<close>; the list of requests
  beside it records every call of \<open>requests.post\<close>.
\<close>

datatype http_outcome =
  Response int string
  | Timeout
  | RequestException
  | OtherException

type_synonym 'w transport = "'w \<Rightarrow> request \<Rightarrow> http_outcome \<times> 'w"

type_synonym 'w net = "'w \<times> request list"

text \<open>
  The call \<open>requests.post(url, data={"chat_id": ..., "text": ..., "parse_mode": "HTML"},
  timeout=10)\<close> with \<open>url = f"https://api.telegram.org/bot{bot_token}/sendMessage"\<close>.
\<close>

definition telegram_request :: "string \<Rightarrow> string \<Rightarrow> message \<Rightarrow> request" where
  "telegram_request tok chat_id text =
     \<lparr>req_url = ''https://api.telegram.org/bot'' @ tok @ ''/sendMessage'',
      req_chat_id = chat_id, req_text = text, req_parse_mode = ''HTML'', req_timeout = 10\<rparr>"

text \<open>
  \<open>send_telegram_message\<close>: \<open>if not bot_token\<close> returns \<open>False\<close> before any request;
  otherwise one \<open>requests.post\<close>, and the three \<open>except\<close> clauses return \<open>False\<close>.
\<close>

definition send_telegram_message ::
  "string option \<Rightarrow> 'w transport \<Rightarrow> string \<Rightarrow> message \<Rightarrow> 'w net \<Rightarrow> bool \<times> 'w net" where
  "send_telegram_message bot_token post chat_id text s =
     (case bot_token of None \<Rightarrow> (False, s)
      | Some tok \<Rightarrow>
          if tok = [] then (False, s)
          else
            (let req = telegram_request tok chat_id text;
                 r = post (fst s) req;
                 s' = (snd r, snd s @ [req])
             in case fst r of
                  Response status_code body \<Rightarrow>
                    if status_code = 200 then (True, s') else (False, s')
                | Timeout \<Rightarrow> (False, s')
                | RequestException \<Rightarrow> (False, s')
                | OtherException \<Rightarrow> (False, s')))"

section \<open>The reminder tick (habits/tasks.py, send_reminder_notifications)\<close>

text \<open>
  The query \<open>Habit.objects.filter(time__hour=..., time__minute=..., user__is_active=True)\<close>
  over the rows of the store.
\<close>

definition due_habits :: "habit list \<Rightarrow> time_of_day \<Rightarrow> habit list" where
  "due_habits store current_time =
     filter (\<lambda>h. hour (time h) = hour current_time
                \<and> minute (time h) = minute current_time
                \<and> is_active (user h)) store"

text \<open>
  The lookup both tasks make: \<open>telegram_id = None\<close>, then
  \<open>if hasattr(user, "profile") and user.profile.telegram_id: telegram_id = ...\<close>.
  Without a profile \<open>hasattr\<close> is false.
\<close>

definition resolve_telegram_id :: "user_rec \<Rightarrow> string option" where
  "resolve_telegram_id u =
     (case profile u of None \<Rightarrow> None
      | Some p \<Rightarrow> if truthy_str (telegram_id p) then telegram_id p else None)"

record tally =
  sent_count :: nat
  skipped_count :: nat

text \<open>The f-string that builds \<open>message\<close> in the loop body.\<close>

definition reminder_message :: "habit \<Rightarrow> message" where
  "reminder_message h =
     Reminder (hour (time h)) (minute (time h)) (or_placeholder (place h)) (action h)
       (duration h) (or_placeholder (reward h))"

text \<open>
  The body of the \<open>for habit in habits\<close> loop. The branch
  \<open>except UserProfile.DoesNotExist\<close> also adds one to \<open>skipped_count\<close> and continues, so
  a missing profile ends in the same state by either route.
\<close>

definition remind_one ::
  "string option \<Rightarrow> 'w transport \<Rightarrow> habit \<Rightarrow> tally \<times> 'w net \<Rightarrow> tally \<times> 'w net" where
  "remind_one bot_token post h st =
     (let t = fst st; s = snd st
      in case resolve_telegram_id (user h) of
           None \<Rightarrow> (t\<lparr>skipped_count := skipped_count t + 1\<rparr>, s)
         | Some chat \<Rightarrow>
             if chat = [] then (t\<lparr>skipped_count := skipped_count t + 1\<rparr>, s)
             else
               (let text = reminder_message h;
                    r = send_telegram_message bot_token post chat text s
                in if fst r then (t\<lparr>sent_count := sent_count t + 1\<rparr>, snd r)
                   else (t\<lparr>skipped_count := skipped_count t + 1\<rparr>, snd r)))"

fun reminder_loop ::
  "string option \<Rightarrow> 'w transport \<Rightarrow> habit list \<Rightarrow> tally \<times> 'w net \<Rightarrow> tally \<times> 'w net" where
  "reminder_loop bot_token post [] st = st"
| "reminder_loop bot_token post (h # hs) st =
     reminder_loop bot_token post hs (remind_one bot_token post h st)"

text \<open>
  The result string interpolates three numbers: the length of the evaluated query
  (\<open>habits.count()\<close> after the loop has filled its cache), \<open>sent_count\<close> and
  \<open>skipped_count\<close>. The summary is the three numbers.
\<close>

record summary =
  checked :: nat
  sent :: nat
  skipped :: nat

definition send_reminder_notifications ::
  "string option \<Rightarrow> 'w transport \<Rightarrow> habit list \<Rightarrow> datetime \<Rightarrow> 'w net \<Rightarrow> summary \<times> 'w net" where
  "send_reminder_notifications bot_token post store now s =
     (let current_time = clock now;
          habits = due_habits store current_time;
          st = reminder_loop bot_token post habits (\<lparr>sent_count = 0, skipped_count = 0\<rparr>, s)
      in (\<lparr>checked = length habits, sent = sent_count (fst st),
           skipped = skipped_count (fst st)\<rparr>, snd st))"

section \<open>The weekly report (habits/tasks.py, send_weekly_report)\<close>

text \<open>
  One entry per iteration of \<open>for user in users\<close>: the report was handed to the
  transport and logged (the result of the send is not looked at), the user had no
  address, or an exception \<open>'e\<close> was caught by \<open>except Exception\<close> and logged.
\<close>

datatype 'e report_outcome = ReportLogged | NoTelegramId | Caught 'e

text \<open>
  The count query \<open>Habit.objects.filter(user=user, created_at__gte=week_ago).count()\<close>
  is a call to the store inside the \<open>try\<close>; it returns a number or raises. The
  transport call cannot raise (\<open>send_telegram_message\<close> catches every \<open>Exception\<close>), so
  the query is the step of the body whose failure the handler has to absorb.
\<close>

type_synonym 'e count_query = "user_rec \<Rightarrow> datetime \<Rightarrow> 'e + nat"

definition report_one ::
  "string option \<Rightarrow> 'w transport \<Rightarrow> 'e count_query \<Rightarrow> datetime \<Rightarrow> user_rec \<Rightarrow> 'w net
     \<Rightarrow> 'e report_outcome \<times> 'w net" where
  "report_one bot_token post count_habits week_ago u s =
     (case resolve_telegram_id u of
        None \<Rightarrow> (NoTelegramId, s)
      | Some chat \<Rightarrow>
          if chat = [] then (NoTelegramId, s)
          else
            (case count_habits u week_ago of
               Inl e \<Rightarrow> (Caught e, s)
             | Inr completed_habits \<Rightarrow>
                 (ReportLogged,
                  snd (send_telegram_message bot_token post chat
                         (WeeklyReport (username u) completed_habits) s))))"

fun report_loop ::
  "string option \<Rightarrow> 'w transport \<Rightarrow> 'e count_query \<Rightarrow> datetime \<Rightarrow> user_rec list \<Rightarrow> 'w net
     \<Rightarrow> (user_rec \<times> 'e report_outcome) list \<times> 'w net" where
  "report_loop bot_token post count_habits week_ago [] s = ([], s)"
| "report_loop bot_token post count_habits week_ago (u # us) s =
     (let r = report_one bot_token post count_habits week_ago u s;
          rest = report_loop bot_token post count_habits week_ago us (snd r)
      in ((u, fst r) # fst rest, snd rest))"

text \<open>\<open>now - timedelta(days=7)\<close>.\<close>

definition week_before :: "datetime \<Rightarrow> datetime" where
  "week_before now = now\<lparr>day_number := day_number now - 7\<rparr>"

definition send_weekly_report ::
  "string option \<Rightarrow> 'w transport \<Rightarrow> 'e count_query \<Rightarrow> user_rec list \<Rightarrow> datetime \<Rightarrow> 'w net
     \<Rightarrow> (user_rec \<times> 'e report_outcome) list \<times> 'w net" where
  "send_weekly_report bot_token post count_habits all_users now s =
     (let week_ago = week_before now;
          users = filter is_active all_users
      in report_loop bot_token post count_habits week_ago users s)"

section \<open>Owners without a destination\<close>

text \<open>
  The condition of the specification's resolver contract, in its words: the owner has
  no profile record, or the profile exists but its address field (\<open>telegram_id\<close>) is
  empty, that is \<open>None\<close> or the empty string.
\<close>

definition has_no_address :: "user_rec \<Rightarrow> bool" where
  "has_no_address u =
     (case profile u of None \<Rightarrow> True
      | Some p \<Rightarrow> telegram_id p = None \<or> telegram_id p = Some [])"

section \<open>Sample data\<close>

text \<open>Concrete users, habits, requests and transports on which the results are run.\<close>

definition eight_oclock :: time_of_day where
  "eight_oclock = \<lparr>hour = 8, minute = 0, second = 0, microsecond = 0\<rparr>"

definition created_day :: datetime where
  "created_day = \<lparr>day_number = 738000, clock = eight_oclock\<rparr>"

definition tick_time :: datetime where
  "tick_time = \<lparr>day_number = 738100,
                 clock = \<lparr>hour = 8, minute = 0, second = 37, microsecond = 512\<rparr>\<rparr>"

definition anna :: user_rec where
  "anna = \<lparr>user_id = 1, username = ''anna'', is_active = True,
           profile = Some \<lparr>telegram_id = Some ''1001'', telegram_username = Some ''anna_t''\<rparr>\<rparr>"

definition boris :: user_rec where
  "boris = \<lparr>user_id = 2, username = ''boris'', is_active = True, profile = None\<rparr>"

definition clara :: user_rec where
  "clara = \<lparr>user_id = 3, username = ''clara'', is_active = True,
            profile = Some \<lparr>telegram_id = Some [], telegram_username = None\<rparr>\<rparr>"

definition dmitri :: user_rec where
  "dmitri = \<lparr>user_id = 4, username = ''dmitri'', is_active = False,
             profile = Some \<lparr>telegram_id = Some ''1004'', telegram_username = None\<rparr>\<rparr>"

definition elena :: user_rec where
  "elena = \<lparr>user_id = 5, username = ''elena'', is_active = True,
            profile = Some \<lparr>telegram_id = Some ''1005'', telegram_username = None\<rparr>\<rparr>"

definition tea_break :: habit where
  "tea_break = Habit 10 anna (Some ''kitchen'') eight_oclock ''drink tea''
                 True None 1 None 1 False created_day"

definition desk_work :: habit where
  "desk_work = Habit 11 anna None eight_oclock ''work'' False None 1 None 2 False created_day"

definition morning_run :: habit where
  "morning_run = Habit 12 anna (Some ''park'') eight_oclock ''run''
                   False None 7 (Some ''coffee'') 2 True created_day"

definition stretching :: habit where
  "stretching = Habit 13 boris None eight_oclock ''stretch''
                  False None 1 None 1 False created_day"

definition evening_walk :: habit where
  "evening_walk = Habit 14 dmitri None eight_oclock ''walk''
                    False None 1 None 2 False created_day"

definition blank_reader :: habit where
  "blank_reader = Habit 15 clara None eight_oclock ''read''
                    False None 1 None 1 False created_day"

definition afternoon_nap :: habit where
  "afternoon_nap = Habit 16 anna None eight_oclock ''nap''
                     True None 1 (Some ''coffee'') 1 False created_day"

definition quiet_nap :: habit where
  "quiet_nap = Habit 17 anna None eight_oclock ''nap''
                 True None 1 (Some []) 1 False created_day"

definition run_then_work :: habit where
  "run_then_work = Habit 18 anna None eight_oclock ''run''
                     False (Some desk_work) 1 None 1 False created_day"

definition run_then_tea :: habit where
  "run_then_tea = Habit 19 anna None eight_oclock ''run''
                    False (Some tea_break) 1 None 1 False created_day"

definition run_tea_and_coffee :: habit where
  "run_tea_and_coffee = Habit 20 anna None eight_oclock ''run''
                          False (Some tea_break) 1 (Some ''coffee'') 1 False created_day"

definition nap_then_work :: habit where
  "nap_then_work = Habit 21 anna None eight_oclock ''nap''
                     True (Some desk_work) 1 None 1 False created_day"

definition nap_then_tea :: habit where
  "nap_then_tea = Habit 22 anna None eight_oclock ''nap''
                    True (Some tea_break) 1 None 1 False created_day"

definition blink :: habit where
  "blink = Habit 23 anna None eight_oclock ''blink''
             False None 1 None 0 False created_day"

definition evening_bath :: habit where
  "evening_bath = Habit 26 anna None eight_oclock ''bath''
                    True None 1 None 2 False created_day"

text \<open>\<open>morning_run\<close> with \<open>related_habit\<close> set to \<open>desk_work\<close>, which is not pleasant.\<close>

definition run_coffee_then_work :: habit where
  "run_coffee_then_work = Habit 12 anna (Some ''park'') eight_oclock ''run''
                            False (Some desk_work) 7 (Some ''coffee'') 2 True created_day"

text \<open>The dictionaries of \<open>PATCH\<close> requests that carry a single key.\<close>

definition no_data :: habit_data where
  "no_data = \<lparr>d_place = None, d_time = None, d_action = None, d_is_pleasant = None,
              d_related_habit = None, d_frequency = None, d_reward = None,
              d_duration = None, d_is_public = None\<rparr>"

text \<open>The dictionary of a request that carries every writable field of a habit.\<close>

definition full_data :: "habit \<Rightarrow> habit_data" where
  "full_data h = \<lparr>d_place = Some (place h), d_time = Some (time h),
                   d_action = Some (action h), d_is_pleasant = Some (is_pleasant h),
                   d_related_habit = Some (related_habit h),
                   d_frequency = Some (frequency h), d_reward = Some (reward h),
                   d_duration = Some (duration h), d_is_public = Some (is_public h)\<rparr>"

definition reward_patch :: habit_data where
  "reward_patch = no_data\<lparr>d_reward := Some (Some ''coffee'')\<rparr>"

definition pleasant_patch :: habit_data where
  "pleasant_patch = no_data\<lparr>d_is_pleasant := Some True\<rparr>"

definition tea_patch :: habit_data where
  "tea_patch = no_data\<lparr>d_related_habit := Some (Some tea_break)\<rparr>"

definition work_patch :: habit_data where
  "work_patch = no_data\<lparr>d_related_habit := Some (Some desk_work)\<rparr>"

text \<open>A transport whose state counts the requests it has served and that answers 200.\<close>

definition post_ok :: "nat transport" where
  "post_ok w req = (Response 200 ''ok'', w + 1)"

definition post_timeout :: "nat transport" where
  "post_timeout w req = (Timeout, w + 1)"

text \<open>A count query that raises for the user with id 1 and returns 3 for every other.\<close>

definition flaky_count :: "string count_query" where
  "flaky_count u since = (if user_id u = 1 then Inl ''database error'' else Inr 3)"

lemmas sample_defs = eight_oclock_def created_day_def tick_time_def anna_def boris_def
  clara_def dmitri_def elena_def tea_break_def desk_work_def morning_run_def stretching_def
  evening_walk_def blank_reader_def post_ok_def post_timeout_def flaky_count_def
  afternoon_nap_def quiet_nap_def run_then_work_def run_then_tea_def run_tea_and_coffee_def
  nap_then_work_def nap_then_tea_def blink_def no_data_def reward_patch_def full_data_def
  evening_bath_def run_coffee_then_work_def pleasant_patch_def tea_patch_def work_patch_def

lemmas validator_defs = clean_def validate_def truthy_str_def truthy_obj_def
  related_not_pleasant_def dict_get_def dict_get_default_def

section \<open>Accounting of a reminder tick\<close>

lemma remind_one_counts:
  "(sent_count (fst (remind_one tok post h (t, s))) = sent_count t + 1
      \<and> skipped_count (fst (remind_one tok post h (t, s))) = skipped_count t)
   \<or> (sent_count (fst (remind_one tok post h (t, s))) = sent_count t
      \<and> skipped_count (fst (remind_one tok post h (t, s))) = skipped_count t + 1)"
  by (simp add: remind_one_def Let_def split: option.split)

lemma reminder_loop_counts:
  "sent_count (fst (reminder_loop tok post hs st))
     + skipped_count (fst (reminder_loop tok post hs st))
     = sent_count (fst st) + skipped_count (fst st) + length hs"
proof (induction hs arbitrary: st)
  case Nil
  show ?case by simp
next
  case (Cons h hs)
  have step: "sent_count (fst (remind_one tok post h st))
      + skipped_count (fst (remind_one tok post h st))
      = sent_count (fst st) + skipped_count (fst st) + 1"
    using remind_one_counts [of tok post h "fst st" "snd st"] by auto
  show ?case
    by (simp add: Cons.IH step)
qed

text \<open>
  C2. The summary of one tick: \<open>checked\<close> is the number of rows of the due query of that
  tick, \<open>sent + skipped = checked\<close>, and the loop body, on any habit and from any
  state, adds one to exactly one of the two counters and leaves the other as it was.
\<close>

theorem tick_summary_accounts_for_due_set:
  "checked (fst (send_reminder_notifications tok post store now s))
       = length (due_habits store (clock now))
   \<and> sent (fst (send_reminder_notifications tok post store now s))
       + skipped (fst (send_reminder_notifications tok post store now s))
       = checked (fst (send_reminder_notifications tok post store now s))
   \<and> ((sent_count (fst (remind_one tok post h (t, s))) = sent_count t + 1
        \<and> skipped_count (fst (remind_one tok post h (t, s))) = skipped_count t)
      \<or> (sent_count (fst (remind_one tok post h (t, s))) = sent_count t
        \<and> skipped_count (fst (remind_one tok post h (t, s))) = skipped_count t + 1))"
proof -
  have a: "checked (fst (send_reminder_notifications tok post store now s))
       = length (due_habits store (clock now))"
    by (simp add: send_reminder_notifications_def Let_def)
  have b: "sent (fst (send_reminder_notifications tok post store now s))
       + skipped (fst (send_reminder_notifications tok post store now s))
       = length (due_habits store (clock now))"
    using reminder_loop_counts [of tok post "due_habits store (clock now)"
        "(\<lparr>sent_count = 0, skipped_count = 0\<rparr>, s)"]
    by (simp add: send_reminder_notifications_def Let_def)
  show ?thesis
    using a b remind_one_counts [of tok post h t s] by simp
qed

theorem tick_summary_witness:
  "send_reminder_notifications (Some ''T'') post_ok [tea_break, stretching] tick_time (0, [])
     = (\<lparr>checked = 2, sent = 1, skipped = 1\<rparr>,
        (1, [telegram_request ''T'' ''1001'' (reminder_message tea_break)]))
   \<and> length (due_habits [tea_break, stretching] (clock tick_time)) = 2"
  using tick_summary_accounts_for_due_set [of "Some ''T''" post_ok "[tea_break, stretching]"
      tick_time "(0, [])" tea_break "\<lparr>sent_count = 0, skipped_count = 0\<rparr>"]
  by (simp add: send_reminder_notifications_def due_habits_def remind_one_def
      send_telegram_message_def resolve_telegram_id_def truthy_str_def Let_def sample_defs)

section \<open>The due query\<close>

text \<open>
  C1. The rows a tick selects are exactly the habits of the store whose \<open>time\<close> has the
  hour and the minute of the current time and whose owner is active. The seconds and
  the date of the current time play no part: two instants with the same hour and
  minute select the same rows. No other field of a habit plays a part: two habits of
  the store that agree on hour, minute and the owner's \<open>is_active\<close> are both selected
  or both left out, whatever their frequency or other fields.
\<close>

theorem due_set_is_hour_minute_of_active_owners:
  "set (due_habits store (clock now))
     = {h \<in> set store. hour (time h) = hour (clock now)
                     \<and> minute (time h) = minute (clock now)
                     \<and> is_active (user h)}
   \<and> (hour (clock now') = hour (clock now) \<and> minute (clock now') = minute (clock now)
        \<longrightarrow> due_habits store (clock now') = due_habits store (clock now))
   \<and> (h \<in> set store \<and> h' \<in> set store
        \<and> hour (time h') = hour (time h) \<and> minute (time h') = minute (time h)
        \<and> is_active (user h') = is_active (user h)
        \<longrightarrow> (h' \<in> set (due_habits store (clock now))
               \<longleftrightarrow> h \<in> set (due_habits store (clock now))))"
  by (auto simp add: due_habits_def)

theorem due_set_witness:
  "set (due_habits [tea_break, morning_run, evening_walk] (clock tick_time))
     = {tea_break, morning_run}
   \<and> hour (clock created_day) = hour (clock tick_time)
   \<and> minute (clock created_day) = minute (clock tick_time)
   \<and> second (clock created_day) \<noteq> second (clock tick_time)
   \<and> due_habits [tea_break, morning_run, evening_walk] (clock created_day)
       = due_habits [tea_break, morning_run, evening_walk] (clock tick_time)
   \<and> frequency morning_run \<noteq> frequency tea_break
   \<and> (morning_run \<in> set (due_habits [tea_break, morning_run, evening_walk] (clock tick_time))
        \<longleftrightarrow> tea_break
             \<in> set (due_habits [tea_break, morning_run, evening_walk] (clock tick_time)))"
  using due_set_is_hour_minute_of_active_owners
    [of "[tea_break, morning_run, evening_walk]" tick_time created_day tea_break morning_run]
  by (simp add: due_habits_def sample_defs)

section \<open>Owners without a destination are skipped\<close>

lemma resolve_no_address: "has_no_address u \<Longrightarrow> resolve_telegram_id u = None"
  by (auto simp add: has_no_address_def resolve_telegram_id_def truthy_str_def
      split: option.splits)

lemma remind_one_no_address:
  "has_no_address (user h) \<Longrightarrow>
     remind_one tok post h (t, s) = (t\<lparr>skipped_count := skipped_count t + 1\<rparr>, s)"
  by (simp add: remind_one_def resolve_no_address)

lemma remind_one_skipped_shift:
  "remind_one tok post h (t\<lparr>skipped_count := skipped_count t + k\<rparr>, s)
     = (let r = remind_one tok post h (t, s)
        in ((fst r)\<lparr>skipped_count := skipped_count (fst r) + k\<rparr>, snd r))"
  by (simp add: remind_one_def Let_def split: option.split)

lemma reminder_loop_skipped_shift:
  "reminder_loop tok post hs (t\<lparr>skipped_count := skipped_count t + k\<rparr>, s)
     = ((fst (reminder_loop tok post hs (t, s)))
           \<lparr>skipped_count := skipped_count (fst (reminder_loop tok post hs (t, s))) + k\<rparr>,
        snd (reminder_loop tok post hs (t, s)))"
proof (induction hs arbitrary: t s)
  case Nil
  show ?case by simp
next
  case (Cons a hs)
  show ?case
    using Cons.IH [of "fst (remind_one tok post a (t, s))" "snd (remind_one tok post a (t, s))"]
    by (simp add: remind_one_skipped_shift Let_def)
qed

lemma reminder_loop_skips_no_address:
  "reminder_loop tok post hs (t, s)
     = ((fst (reminder_loop tok post (filter (\<lambda>h. \<not> has_no_address (user h)) hs) (t, s)))
           \<lparr>skipped_count :=
              skipped_count (fst (reminder_loop tok post
                                   (filter (\<lambda>h. \<not> has_no_address (user h)) hs) (t, s)))
              + length (filter (\<lambda>h. has_no_address (user h)) hs)\<rparr>,
        snd (reminder_loop tok post (filter (\<lambda>h. \<not> has_no_address (user h)) hs) (t, s)))"
proof (induction hs arbitrary: t s)
  case Nil
  show ?case by simp
next
  case (Cons h hs)
  show ?case
  proof (cases "has_no_address (user h)")
    case True
    have "reminder_loop tok post (h # hs) (t, s)
        = reminder_loop tok post hs (t\<lparr>skipped_count := skipped_count t + 1\<rparr>, s)"
      using True by (simp only: reminder_loop.simps remind_one_no_address)
    also have "\<dots> = ((fst (reminder_loop tok post hs (t, s)))
           \<lparr>skipped_count := skipped_count (fst (reminder_loop tok post hs (t, s))) + 1\<rparr>,
        snd (reminder_loop tok post hs (t, s)))"
      by (rule reminder_loop_skipped_shift)
    finally show ?thesis
      using True by (simp add: Cons.IH [of t s])
  next
    case False
    show ?thesis
      using False
        Cons.IH [of "fst (remind_one tok post h (t, s))" "snd (remind_one tok post h (t, s))"]
      by simp
  qed
qed

lemma due_habits_filter:
  "due_habits (filter Q store) current_time = filter Q (due_habits store current_time)"
  by (simp add: due_habits_def conj_commute)

text \<open>
  C6. For a habit whose owner has no profile, or has a profile with an empty
  \<open>telegram_id\<close>, the lookup yields no address, and the loop body returns the network
  state and the list of requests untouched, with \<open>skipped\<close> one higher and \<open>sent\<close>
  unchanged: the same result in both cases, and a result, not an exception. For the
  whole tick: it leaves the network and the requests exactly as the tick over the
  store without those habits does, with the same \<open>sent\<close>, and counts each of them once
  in \<open>skipped\<close>.
\<close>

theorem no_address_is_skipped_without_attempt:
  "(has_no_address (user h)
      \<longrightarrow> resolve_telegram_id (user h) = None
          \<and> remind_one tok post h (t, s) = (t\<lparr>skipped_count := skipped_count t + 1\<rparr>, s))
   \<and> send_reminder_notifications tok post store now s
     = (\<lparr>checked = length (due_habits store (clock now)),
         sent = sent (fst (send_reminder_notifications tok post
                  (filter (\<lambda>h. \<not> has_no_address (user h)) store) now s)),
         skipped = skipped (fst (send_reminder_notifications tok post
                  (filter (\<lambda>h. \<not> has_no_address (user h)) store) now s))
           + length (filter (\<lambda>h. has_no_address (user h)) (due_habits store (clock now)))\<rparr>,
        snd (send_reminder_notifications tok post
               (filter (\<lambda>h. \<not> has_no_address (user h)) store) now s))"
proof -
  have one: "has_no_address (user h)
      \<Longrightarrow> resolve_telegram_id (user h) = None
          \<and> remind_one tok post h (t, s) = (t\<lparr>skipped_count := skipped_count t + 1\<rparr>, s)"
    by (simp add: resolve_no_address remind_one_no_address)
  have tick: "send_reminder_notifications tok post store now s
     = (\<lparr>checked = length (due_habits store (clock now)),
         sent = sent (fst (send_reminder_notifications tok post
                  (filter (\<lambda>h. \<not> has_no_address (user h)) store) now s)),
         skipped = skipped (fst (send_reminder_notifications tok post
                  (filter (\<lambda>h. \<not> has_no_address (user h)) store) now s))
           + length (filter (\<lambda>h. has_no_address (user h)) (due_habits store (clock now)))\<rparr>,
        snd (send_reminder_notifications tok post
               (filter (\<lambda>h. \<not> has_no_address (user h)) store) now s))"
    using reminder_loop_skips_no_address [of tok post "due_habits store (clock now)"
        "\<lparr>sent_count = 0, skipped_count = 0\<rparr>" s]
    by (simp add: send_reminder_notifications_def Let_def due_habits_filter)
  show ?thesis
    using one tick by blast
qed

theorem no_address_witness:
  "has_no_address (user stretching) \<and> has_no_address (user blank_reader)
   \<and> profile (user stretching) = None
   \<and> profile (user blank_reader) = Some \<lparr>telegram_id = Some [], telegram_username = None\<rparr>
   \<and> resolve_telegram_id (user stretching) = None
   \<and> resolve_telegram_id (user blank_reader) = None
   \<and> remind_one (Some ''T'') post_ok stretching (\<lparr>sent_count = 0, skipped_count = 0\<rparr>, (0, []))
     = (\<lparr>sent_count = 0, skipped_count = 1\<rparr>, (0, []))
   \<and> remind_one (Some ''T'') post_ok blank_reader (\<lparr>sent_count = 0, skipped_count = 0\<rparr>, (0, []))
     = (\<lparr>sent_count = 0, skipped_count = 1\<rparr>, (0, []))"
proof -
  have a: "has_no_address (user stretching)"
    by (simp add: has_no_address_def sample_defs)
  have b: "has_no_address (user blank_reader)"
    by (simp add: has_no_address_def sample_defs)
  show ?thesis
    using a b
      no_address_is_skipped_without_attempt [of stretching "Some ''T''" post_ok
        "\<lparr>sent_count = 0, skipped_count = 0\<rparr>" "(0, [])" "[]" tick_time]
      no_address_is_skipped_without_attempt [of blank_reader "Some ''T''" post_ok
        "\<lparr>sent_count = 0, skipped_count = 0\<rparr>" "(0, [])" "[]" tick_time]
    by (simp add: sample_defs)
qed

section \<open>The transport call\<close>

text \<open>
  C7. \<open>send_telegram_message\<close> returns \<open>True\<close> exactly when the token is set and the
  one request it makes is answered with status 200. Without a token it returns
  \<open>False\<close> and makes no request. With a token it makes exactly one request (the list
  of requests grows by that one, whatever the outcome: no retry), and that request
  carries \<open>timeout = 10\<close>. A timeout, a status other than 200, a request exception
  and any other exception all give \<open>False\<close>. In the tick, for a habit with an address,
  \<open>False\<close> adds one to \<open>skipped\<close> and \<open>True\<close> one to \<open>sent\<close>, whatever the kind of failure.
\<close>

theorem send_succeeds_only_on_status_200:
  "(fst (send_telegram_message bot_token post chat text s)
      \<longleftrightarrow> (\<exists>tok body. bot_token = Some tok \<and> tok \<noteq> []
            \<and> fst (post (fst s) (telegram_request tok chat text)) = Response 200 body))
   \<and> (\<not> truthy_str bot_token
        \<longrightarrow> send_telegram_message bot_token post chat text s = (False, s))
   \<and> (bot_token = Some tok \<and> tok \<noteq> []
        \<longrightarrow> snd (send_telegram_message bot_token post chat text s)
             = (snd (post (fst s) (telegram_request tok chat text)),
                snd s @ [telegram_request tok chat text]))
   \<and> req_timeout (telegram_request tok chat text) = 10
   \<and> (bot_token = Some tok \<and> tok \<noteq> []
        \<and> (fst (post (fst s) (telegram_request tok chat text)) = Timeout
           \<or> fst (post (fst s) (telegram_request tok chat text)) = RequestException
           \<or> fst (post (fst s) (telegram_request tok chat text)) = OtherException
           \<or> (\<exists>code body. code \<noteq> 200
                \<and> fst (post (fst s) (telegram_request tok chat text)) = Response code body))
        \<longrightarrow> \<not> fst (send_telegram_message bot_token post chat text s))
   \<and> (resolve_telegram_id (user h) = Some chat \<and> chat \<noteq> []
        \<longrightarrow> remind_one bot_token post h (t, s)
             = (if fst (send_telegram_message bot_token post chat (reminder_message h) s)
                then t\<lparr>sent_count := sent_count t + 1\<rparr>
                else t\<lparr>skipped_count := skipped_count t + 1\<rparr>,
                snd (send_telegram_message bot_token post chat (reminder_message h) s)))"
proof -
  have iff: "fst (send_telegram_message bot_token post chat text s)
      \<longleftrightarrow> (\<exists>tok body. bot_token = Some tok \<and> tok \<noteq> []
            \<and> fst (post (fst s) (telegram_request tok chat text)) = Response 200 body)"
    by (cases bot_token)
      (auto simp add: send_telegram_message_def Let_def split: http_outcome.splits)
  have missing: "\<not> truthy_str bot_token
        \<Longrightarrow> send_telegram_message bot_token post chat text s = (False, s)"
    by (cases bot_token) (simp_all add: send_telegram_message_def truthy_str_def)
  have once: "bot_token = Some tok \<Longrightarrow> tok \<noteq> []
        \<Longrightarrow> snd (send_telegram_message bot_token post chat text s)
             = (snd (post (fst s) (telegram_request tok chat text)),
                snd s @ [telegram_request tok chat text])"
    by (simp add: send_telegram_message_def Let_def split: http_outcome.splits)
  have bound: "req_timeout (telegram_request tok chat text) = 10"
    by (simp add: telegram_request_def)
  have failures: "bot_token = Some tok \<and> tok \<noteq> []
        \<and> (fst (post (fst s) (telegram_request tok chat text)) = Timeout
           \<or> fst (post (fst s) (telegram_request tok chat text)) = RequestException
           \<or> fst (post (fst s) (telegram_request tok chat text)) = OtherException
           \<or> (\<exists>code body. code \<noteq> 200
                \<and> fst (post (fst s) (telegram_request tok chat text)) = Response code body))
        \<Longrightarrow> \<not> fst (send_telegram_message bot_token post chat text s)"
    by (auto simp add: send_telegram_message_def Let_def)
  have counted: "resolve_telegram_id (user h) = Some chat \<Longrightarrow> chat \<noteq> []
        \<Longrightarrow> remind_one bot_token post h (t, s)
             = (if fst (send_telegram_message bot_token post chat (reminder_message h) s)
                then t\<lparr>sent_count := sent_count t + 1\<rparr>
                else t\<lparr>skipped_count := skipped_count t + 1\<rparr>,
                snd (send_telegram_message bot_token post chat (reminder_message h) s))"
    by (simp add: remind_one_def Let_def)
  show ?thesis
    using iff missing once bound failures counted by blast
qed

theorem send_timeout_witness:
  "\<not> truthy_str (Some [])
   \<and> send_telegram_message (Some []) post_timeout ''1001'' (reminder_message tea_break) (0, [])
     = (False, (0, []))
   \<and> fst (post_timeout 0 (telegram_request ''T'' ''1001'' (reminder_message tea_break))) = Timeout
   \<and> resolve_telegram_id (user tea_break) = Some ''1001''
   \<and> \<not> fst (send_telegram_message (Some ''T'') post_timeout ''1001''
             (reminder_message tea_break) (0, []))
   \<and> snd (send_telegram_message (Some ''T'') post_timeout ''1001''
            (reminder_message tea_break) (0, []))
     = (1, [telegram_request ''T'' ''1001'' (reminder_message tea_break)])
   \<and> remind_one (Some ''T'') post_timeout tea_break
       (\<lparr>sent_count = 0, skipped_count = 0\<rparr>, (0, []))
     = (\<lparr>sent_count = 0, skipped_count = 1\<rparr>,
        (1, [telegram_request ''T'' ''1001'' (reminder_message tea_break)]))"
proof -
  have tmo: "fst (post_timeout (fst (0, [])) (telegram_request ''T'' ''1001''
                (reminder_message tea_break))) = Timeout"
    by (simp add: post_timeout_def)
  have addr: "resolve_telegram_id (user tea_break) = Some ''1001''"
    by (simp add: resolve_telegram_id_def truthy_str_def sample_defs)
  have notok: "\<not> truthy_str (Some [])"
    by (simp add: truthy_str_def)
  show ?thesis
    using tmo addr notok
      send_succeeds_only_on_status_200 [of "Some ''T''" post_timeout "''1001''"
        "reminder_message tea_break" "(0, [])" "''T''" tea_break
        "\<lparr>sent_count = 0, skipped_count = 0\<rparr>"]
      send_succeeds_only_on_status_200 [of "Some []" post_timeout "''1001''"
        "reminder_message tea_break" "(0, [])" "''T''" tea_break
        "\<lparr>sent_count = 0, skipped_count = 0\<rparr>"]
    by (simp add: post_timeout_def)
qed

section \<open>The weekly report\<close>

lemma report_one_outcome_stateless:
  "fst (report_one tok post count_habits week_ago u s)
     = fst (report_one tok post count_habits week_ago u s0)"
  by (simp add: report_one_def split: option.split sum.split)

lemma report_loop_log:
  "fst (report_loop tok post count_habits week_ago us s)
     = map (\<lambda>u. (u, fst (report_one tok post count_habits week_ago u s0))) us"
proof (induction us arbitrary: s)
  case Nil
  show ?case by simp
next
  case (Cons u us)
  show ?case
    using report_one_outcome_stateless [of tok post count_habits week_ago u s s0]
    by (simp add: Let_def Cons.IH)
qed

lemma report_one_caught:
  "\<not> has_no_address u \<Longrightarrow> count_habits u week_ago = Inl e
     \<Longrightarrow> report_one tok post count_habits week_ago u s = (Caught e, s)"
  by (auto simp add: report_one_def has_no_address_def resolve_telegram_id_def truthy_str_def
      split: option.splits)

lemma report_loop_append:
  "report_loop tok post count_habits week_ago (xs @ ys) s
     = (fst (report_loop tok post count_habits week_ago xs s)
          @ fst (report_loop tok post count_habits week_ago ys
                   (snd (report_loop tok post count_habits week_ago xs s))),
        snd (report_loop tok post count_habits week_ago ys
               (snd (report_loop tok post count_habits week_ago xs s))))"
  by (induction xs arbitrary: s) (simp_all add: Let_def)

lemma report_one_raise_keeps_state:
  "count_habits u week_ago = Inl e
     \<Longrightarrow> snd (report_one tok post count_habits week_ago u s) = s"
  by (simp add: report_one_def split: option.split)

lemma report_loop_raise_is_isolated:
  assumes "count_habits u week_ago = Inl e"
  shows "snd (report_loop tok post count_habits week_ago (xs @ u # ys) s)
     = snd (report_loop tok post count_habits week_ago (xs @ ys) s)"
  using assms by (simp add: report_loop_append Let_def report_one_raise_keeps_state)

text \<open>
  C8. The weekly job returns for every list of users and every behaviour of the store
  query and of the transport, and its log has one entry for each active user, in the
  order of the query. The entry of a user is what that user's own iteration decides,
  from any network state: an exception raised for one user is recorded as caught in
  that user's entry and changes no other entry, so the users after it are processed.
  The requests made and the final network state are those of the same job over the
  list of users without the failing one.
\<close>

theorem weekly_report_visits_every_active_user:
  "map fst (fst (send_weekly_report tok post count_habits all_users now s))
     = filter is_active all_users
   \<and> fst (send_weekly_report tok post count_habits all_users now s)
     = map (\<lambda>u. (u, fst (report_one tok post count_habits (week_before now) u s0)))
         (filter is_active all_users)
   \<and> (u \<in> set all_users \<and> is_active u \<and> \<not> has_no_address u
        \<and> count_habits u (week_before now) = Inl e
      \<longrightarrow> (u, Caught e) \<in> set (fst (send_weekly_report tok post count_habits all_users now s)))
   \<and> (count_habits u (week_before now) = Inl e
      \<longrightarrow> snd (send_weekly_report tok post count_habits (us1 @ u # us2) now s)
          = snd (send_weekly_report tok post count_habits (us1 @ us2) now s))"
proof -
  have isolated: "count_habits u (week_before now) = Inl e
      \<Longrightarrow> snd (send_weekly_report tok post count_habits (us1 @ u # us2) now s)
          = snd (send_weekly_report tok post count_habits (us1 @ us2) now s)"
    using report_loop_raise_is_isolated [of count_habits u "week_before now" e tok post
        "filter is_active us1" "filter is_active us2" s]
    by (simp add: send_weekly_report_def Let_def)
  have log: "fst (send_weekly_report tok post count_habits all_users now s)
     = map (\<lambda>u. (u, fst (report_one tok post count_habits (week_before now) u s0)))
         (filter is_active all_users)"
    by (simp add: send_weekly_report_def Let_def report_loop_log [where ?s0.0 = s0])
  have users: "map fst (fst (send_weekly_report tok post count_habits all_users now s))
     = filter is_active all_users"
    by (simp add: log comp_def)
  have caught: "u \<in> set all_users \<Longrightarrow> is_active u \<Longrightarrow> \<not> has_no_address u
        \<Longrightarrow> count_habits u (week_before now) = Inl e
      \<Longrightarrow> (u, Caught e) \<in> set (fst (send_weekly_report tok post count_habits all_users now s))"
  proof -
    assume a: "u \<in> set all_users" "is_active u" "\<not> has_no_address u"
      "count_habits u (week_before now) = Inl e"
    have "fst (report_one tok post count_habits (week_before now) u s0) = Caught e"
      using a(3) a(4) by (simp add: report_one_caught)
    then show ?thesis
      using a(1) a(2) by (simp add: log image_iff)
  qed
  show ?thesis
    using log users caught isolated by blast
qed

theorem weekly_report_witness:
  "anna \<in> set [anna, boris, dmitri, elena] \<and> is_active anna \<and> \<not> has_no_address anna
   \<and> flaky_count anna (week_before tick_time) = Inl ''database error''
   \<and> send_weekly_report (Some ''T'') post_ok flaky_count [anna, boris, dmitri, elena]
       tick_time (0, [])
     = ([(anna, Caught ''database error''), (boris, NoTelegramId), (elena, ReportLogged)],
        (1, [telegram_request ''T'' ''1005'' (WeeklyReport ''elena'' 3)]))
   \<and> snd (send_weekly_report (Some ''T'') post_ok flaky_count ([] @ anna # [boris, dmitri, elena])
            tick_time (0, []))
     = snd (send_weekly_report (Some ''T'') post_ok flaky_count ([] @ [boris, dmitri, elena])
              tick_time (0, []))"
  using weekly_report_visits_every_active_user [of "Some ''T''" post_ok flaky_count
      "[anna, boris, dmitri, elena]" tick_time "(0, [])" "(0, [])" anna "''database error''"
      "[]" "[boris, dmitri, elena]"]
  by (simp add: send_weekly_report_def report_one_def resolve_telegram_id_def truthy_str_def
      has_no_address_def send_telegram_message_def Let_def sample_defs)

section \<open>The reward and related-habit rules\<close>

text \<open>
  What \<open>Habit.clean\<close> does with a habit, presence being its own truth-value test (a
  reward that is a non-empty string, a related habit that is not \<open>None\<close>).
\<close>

lemma clean_reward_related_checks:
  "(is_pleasant h \<and> truthy_str (reward h) \<longrightarrow> clean h = Inl PleasantHabitHasReward)
   \<and> (is_pleasant h \<and> \<not> truthy_str (reward h) \<and> related_habit h \<noteq> None
        \<longrightarrow> clean h = Inl PleasantHabitHasRelated)
   \<and> (\<not> is_pleasant h \<and> truthy_str (reward h) \<and> related_habit h \<noteq> None
        \<longrightarrow> clean h = Inl RewardAndRelatedBothSet)
   \<and> (\<not> (is_pleasant h \<and> (truthy_str (reward h) \<or> related_habit h \<noteq> None))
        \<and> \<not> (\<not> is_pleasant h \<and> truthy_str (reward h) \<and> related_habit h \<noteq> None)
        \<longrightarrow> clean h = Inr () \<or> clean h = Inl RelatedHabitNotPleasant)"
proof -
  have obj: "\<And>r :: habit option. truthy_obj r \<longleftrightarrow> r \<noteq> None"
    by (simp add: truthy_obj_def split: option.split)
  show ?thesis
    by (simp add: clean_def obj)
qed

lemma create_instance_fields:
  "create_instance new_id owner now data = Some h
     \<Longrightarrow> is_pleasant h = dict_get_default (d_is_pleasant data) False
       \<and> reward h = dict_get (d_reward data)
       \<and> related_habit h = dict_get (d_related_habit data)"
  by (cases "d_time data"; cases "d_action data"; cases "d_duration data")
    (auto simp add: create_instance_def)

text \<open>
  On creation the two validators agree: the serializer raises an error on the
  dictionary exactly when \<open>clean\<close> raises that error on the instance built from it.
\<close>

lemma validate_agrees_with_clean_on_create:
  "create_instance new_id owner now data = Some h
     \<Longrightarrow> (validate data = Inl e \<longleftrightarrow> clean h = Inl e)
       \<and> (validate data = Inr data \<longleftrightarrow> clean h = Inr ())"
  using create_instance_fields [of new_id owner now data h]
  by (simp add: clean_def validate_def Let_def)

text \<open>
  C3 fails on updates that submit part of a habit, for each of its rules. The stored
  habit \<open>morning_run\<close> is not pleasant and has the reward \<open>coffee\<close>; \<open>evening_bath\<close> is
  pleasant and has neither reward nor related habit; \<open>clean\<close> accepts both. A \<open>PATCH\<close>
  with only \<open>is_pleasant = True\<close> on \<open>morning_run\<close> is accepted by the serializer and
  committed: the habit is now pleasant with a reward. A \<open>PATCH\<close> with only a related
  habit on \<open>evening_bath\<close> is accepted and committed: the habit is now pleasant with a
  related habit. The same \<open>PATCH\<close> on \<open>morning_run\<close> is accepted and committed: the
  habit is not pleasant and has both a reward and a related habit. \<open>Habit.clean\<close>
  rejects each of the three stored habits.
\<close>

theorem partial_update_breaks_reward_related_rules:
  "clean morning_run = Inr () \<and> clean evening_bath = Inr ()
   \<and> api_update morning_run pleasant_patch = Inr (update_instance morning_run pleasant_patch)
   \<and> is_pleasant (update_instance morning_run pleasant_patch)
   \<and> reward (update_instance morning_run pleasant_patch) = Some ''coffee''
   \<and> clean (update_instance morning_run pleasant_patch) = Inl PleasantHabitHasReward
   \<and> api_update evening_bath tea_patch = Inr (update_instance evening_bath tea_patch)
   \<and> is_pleasant (update_instance evening_bath tea_patch)
   \<and> related_habit (update_instance evening_bath tea_patch) = Some tea_break
   \<and> clean (update_instance evening_bath tea_patch) = Inl PleasantHabitHasRelated
   \<and> api_update morning_run tea_patch = Inr (update_instance morning_run tea_patch)
   \<and> \<not> is_pleasant (update_instance morning_run tea_patch)
   \<and> reward (update_instance morning_run tea_patch) = Some ''coffee''
   \<and> related_habit (update_instance morning_run tea_patch) = Some tea_break
   \<and> clean (update_instance morning_run tea_patch) = Inl RewardAndRelatedBothSet"
  by (simp add: api_update_def update_instance_def validator_defs sample_defs)

text \<open>
  C4, as stated, fails. A pleasant habit linked to a habit that is not pleasant
  (\<open>nap_then_work\<close>) is rejected with \<open>PleasantHabitHasRelated\<close>; a habit that is not
  pleasant, has the reward \<open>coffee\<close> and is linked to a habit that is not pleasant
  (\<open>run_coffee_then_work\<close>, the scenario of the specification) is rejected with
  \<open>RewardAndRelatedBothSet\<close>: in neither case with \<open>RelatedHabitNotPleasant\<close>. And a
  pleasant habit linked to a pleasant habit (\<open>nap_then_tea\<close>) is rejected although the
  referenced habit is pleasant.
\<close>

theorem related_not_pleasant_counterexample:
  "related_habit nap_then_work = Some desk_work \<and> \<not> is_pleasant desk_work
   \<and> clean nap_then_work = Inl PleasantHabitHasRelated
   \<and> validate (full_data nap_then_work) = Inl PleasantHabitHasRelated
   \<and> related_habit run_coffee_then_work = Some desk_work
   \<and> \<not> is_pleasant run_coffee_then_work \<and> reward run_coffee_then_work = Some ''coffee''
   \<and> clean run_coffee_then_work = Inl RewardAndRelatedBothSet
   \<and> validate (full_data run_coffee_then_work) = Inl RewardAndRelatedBothSet
   \<and> related_habit nap_then_tea = Some tea_break \<and> is_pleasant tea_break
   \<and> isl (clean nap_then_tea) \<and> isl (validate (full_data nap_then_tea))"
  by (simp add: validator_defs sample_defs)

text \<open>
  C4, amended. For a habit with a related habit, checked by \<open>Habit.clean\<close>, or by the
  serializer on creation, where the dictionary is the whole habit: if the referenced
  habit is not pleasant the habit is rejected; the error is \<open>RelatedHabitNotPleasant\<close>
  exactly when the referenced habit is not pleasant and the earlier checks pass, that
  is the habit itself is not pleasant and has no reward; a pleasant habit is rejected
  by an earlier check (\<open>PleasantHabitHasReward\<close> with a reward,
  \<open>PleasantHabitHasRelated\<close> without), and a habit that is not pleasant and has a
  reward is rejected with \<open>RewardAndRelatedBothSet\<close>, whatever the referenced habit.
  On an update, submitted data that carries a related habit that is not pleasant is
  rejected, whatever is stored.
\<close>

theorem related_habit_must_be_pleasant:
  "(related_habit h = Some r
      \<longrightarrow> (\<not> is_pleasant r \<longrightarrow> isl (clean h))
        \<and> (clean h = Inl RelatedHabitNotPleasant
             \<longleftrightarrow> \<not> is_pleasant r \<and> \<not> is_pleasant h \<and> \<not> truthy_str (reward h))
        \<and> (is_pleasant h \<and> truthy_str (reward h) \<longrightarrow> clean h = Inl PleasantHabitHasReward)
        \<and> (is_pleasant h \<and> \<not> truthy_str (reward h)
             \<longrightarrow> clean h = Inl PleasantHabitHasRelated)
        \<and> (\<not> is_pleasant h \<and> truthy_str (reward h)
             \<longrightarrow> clean h = Inl RewardAndRelatedBothSet)
        \<and> (\<not> is_pleasant h \<and> \<not> truthy_str (reward h)
             \<longrightarrow> (isl (clean h) \<longleftrightarrow> \<not> is_pleasant r)))
   \<and> (create_instance new_id owner now data = Some h
      \<longrightarrow> (validate data = Inl e \<longleftrightarrow> clean h = Inl e)
        \<and> (isl (validate data) \<longleftrightarrow> isl (clean h)))
   \<and> (dict_get (d_related_habit patch) = Some r \<and> \<not> is_pleasant r
      \<longrightarrow> isl (validate patch) \<and> isl (api_update stored patch))"
proof -
  have model: "related_habit h = Some r
      \<Longrightarrow> (\<not> is_pleasant r \<longrightarrow> isl (clean h))
        \<and> (clean h = Inl RelatedHabitNotPleasant
             \<longleftrightarrow> \<not> is_pleasant r \<and> \<not> is_pleasant h \<and> \<not> truthy_str (reward h))
        \<and> (is_pleasant h \<and> truthy_str (reward h) \<longrightarrow> clean h = Inl PleasantHabitHasReward)
        \<and> (is_pleasant h \<and> \<not> truthy_str (reward h)
             \<longrightarrow> clean h = Inl PleasantHabitHasRelated)
        \<and> (\<not> is_pleasant h \<and> truthy_str (reward h)
             \<longrightarrow> clean h = Inl RewardAndRelatedBothSet)
        \<and> (\<not> is_pleasant h \<and> \<not> truthy_str (reward h)
             \<longrightarrow> (isl (clean h) \<longleftrightarrow> \<not> is_pleasant r))"
    by (simp add: clean_def truthy_obj_def related_not_pleasant_def)
  have same: "create_instance new_id owner now data = Some h
      \<Longrightarrow> validate data = Inl e \<longleftrightarrow> clean h = Inl e"
    by (simp add: validate_agrees_with_clean_on_create)
  have fields: "create_instance new_id owner now data = Some h
      \<Longrightarrow> is_pleasant h = dict_get_default (d_is_pleasant data) False
        \<and> reward h = dict_get (d_reward data)
        \<and> related_habit h = dict_get (d_related_habit data)"
    by (rule create_instance_fields)
  have verdict: "create_instance new_id owner now data = Some h
      \<Longrightarrow> isl (validate data) \<longleftrightarrow> isl (clean h)"
    using fields by (simp add: clean_def validate_def Let_def)
  have patch: "dict_get (d_related_habit patch) = Some r \<Longrightarrow> \<not> is_pleasant r
      \<Longrightarrow> isl (validate patch)"
    by (simp add: validate_def Let_def related_not_pleasant_def)
  have update: "dict_get (d_related_habit patch) = Some r \<Longrightarrow> \<not> is_pleasant r
      \<Longrightarrow> isl (api_update stored patch)"
    using patch by (cases "validate patch") (simp_all add: api_update_def)
  show ?thesis
    using model same verdict patch update by blast
qed

theorem related_habit_must_be_pleasant_witness:
  "related_habit run_then_work = Some desk_work \<and> \<not> is_pleasant desk_work
   \<and> \<not> is_pleasant run_then_work \<and> \<not> truthy_str (reward run_then_work)
   \<and> clean run_then_work = Inl RelatedHabitNotPleasant
   \<and> create_instance 18 anna created_day (full_data run_then_work) = Some run_then_work
   \<and> validate (full_data run_then_work) = Inl RelatedHabitNotPleasant
   \<and> related_habit run_coffee_then_work = Some desk_work
   \<and> \<not> is_pleasant run_coffee_then_work \<and> truthy_str (reward run_coffee_then_work)
   \<and> clean run_coffee_then_work = Inl RewardAndRelatedBothSet
   \<and> related_habit nap_then_work = Some desk_work
   \<and> is_pleasant nap_then_work \<and> \<not> truthy_str (reward nap_then_work)
   \<and> clean nap_then_work = Inl PleasantHabitHasRelated
   \<and> related_habit run_then_tea = Some tea_break \<and> is_pleasant tea_break
   \<and> \<not> isl (clean run_then_tea)
   \<and> dict_get (d_related_habit work_patch) = Some desk_work
   \<and> isl (validate work_patch) \<and> isl (api_update morning_run work_patch)"
  using related_habit_must_be_pleasant [of run_then_work desk_work 18 anna created_day
      "full_data run_then_work" RelatedHabitNotPleasant work_patch morning_run]
    related_habit_must_be_pleasant [of run_coffee_then_work desk_work 18 anna created_day
      "full_data run_then_work" RelatedHabitNotPleasant work_patch morning_run]
    related_habit_must_be_pleasant [of nap_then_work desk_work 18 anna created_day
      "full_data run_then_work" RelatedHabitNotPleasant work_patch morning_run]
    related_habit_must_be_pleasant [of run_then_tea tea_break 18 anna created_day
      "full_data run_then_work" RelatedHabitNotPleasant work_patch morning_run]
  by (simp add: create_instance_def validator_defs sample_defs)

section \<open>The two validators side by side\<close>

text \<open>
  C5 fails on a partial update. The stored habit \<open>tea_break\<close> is pleasant and has no
  reward. A \<open>PATCH\<close> whose dictionary holds only \<open>reward = "coffee"\<close> is accepted by
  the serializer, which reads the missing \<open>is_pleasant\<close> as \<open>False\<close>; the update is
  committed, and the stored habit is now pleasant with a reward, which \<open>Habit.clean\<close>
  rejects with \<open>PleasantHabitHasReward\<close>.
\<close>

theorem partial_update_stores_pleasant_habit_with_reward:
  "clean tea_break = Inr ()
   \<and> validate reward_patch = Inr reward_patch
   \<and> api_update tea_break reward_patch = Inr (update_instance tea_break reward_patch)
   \<and> is_pleasant (update_instance tea_break reward_patch)
   \<and> reward (update_instance tea_break reward_patch) = Some ''coffee''
   \<and> clean (update_instance tea_break reward_patch) = Inl PleasantHabitHasReward"
  by (simp add: api_update_def update_instance_def validator_defs sample_defs)

section \<open>Ranges of duration and frequency\<close>

text \<open>
  C9, as stated, fails at duration 0: \<open>blink\<close> has duration 0 and frequency 1 and is
  accepted by \<open>full_clean\<close>. The declaration of \<open>duration\<close> names only
  \<open>MaxValueValidator(2)\<close>, and the field type admits 0.
\<close>

theorem zero_duration_counterexample:
  "full_clean blink = Inr () \<and> duration blink = 0 \<and> \<not> 0 < duration blink"
  by (simp add: full_clean_def clean_fields_def optional_char_field_def
      required_char_field_def frequency_field_def duration_field_def MinValueValidator_def
      MaxValueValidator_def MaxLengthValidator_def positive_integer_field_min_def
      validator_defs sample_defs)

text \<open>
  C9, amended. Every habit accepted by \<open>full_clean\<close> has a duration from 0 to 2 and a
  frequency from 1 to 7, and every habit with a duration below 0 or above 2, or a
  frequency below 1 or above 7, is rejected.
\<close>

theorem accepted_habit_ranges:
  "(full_clean h = Inr ()
      \<longrightarrow> 0 \<le> duration h \<and> duration h \<le> 2 \<and> 1 \<le> frequency h \<and> frequency h \<le> 7)
   \<and> (duration h < 0 \<or> 2 < duration h \<or> frequency h < 1 \<or> 7 < frequency h
      \<longrightarrow> isl (full_clean h))"
proof -
  have ok: "full_clean h = Inr ()
      \<Longrightarrow> frequency_field (frequency h) = [] \<and> duration_field (duration h) = []"
    by (simp add: full_clean_def clean_fields_def Let_def split: if_splits)
  have rng: "frequency_field (frequency h) = [] \<and> duration_field (duration h) = []
    \<longleftrightarrow> 0 \<le> duration h \<and> duration h \<le> 2 \<and> 1 \<le> frequency h \<and> frequency h \<le> 7"
    by (auto simp add: frequency_field_def duration_field_def MinValueValidator_def
        MaxValueValidator_def positive_integer_field_min_def)
  have rej: "\<not> (frequency_field (frequency h) = [] \<and> duration_field (duration h) = [])
     \<Longrightarrow> isl (full_clean h)"
    by (auto simp add: full_clean_def clean_fields_def Let_def)
  show ?thesis
    using ok rng rej by fastforce
qed

theorem accepted_habit_ranges_witness:
  "full_clean morning_run = Inr ()
   \<and> duration morning_run = 2 \<and> frequency morning_run = 7
   \<and> 2 < duration (Habit 24 anna None eight_oclock ''marathon''
                     False None 1 None 5 False created_day)
   \<and> isl (full_clean (Habit 24 anna None eight_oclock ''marathon''
                        False None 1 None 5 False created_day))
   \<and> 7 < frequency (Habit 25 anna None eight_oclock ''rarely''
                      False None 10 None 1 False created_day)
   \<and> isl (full_clean (Habit 25 anna None eight_oclock ''rarely''
                        False None 10 None 1 False created_day))"
  using accepted_habit_ranges [of morning_run]
    accepted_habit_ranges [of "Habit 24 anna None eight_oclock ''marathon''
                                 False None 1 None 5 False created_day"]
    accepted_habit_ranges [of "Habit 25 anna None eight_oclock ''rarely''
                                 False None 10 None 1 False created_day"]
  by (simp add: full_clean_def clean_fields_def optional_char_field_def
      required_char_field_def frequency_field_def duration_field_def MinValueValidator_def
      MaxValueValidator_def MaxLengthValidator_def positive_integer_field_min_def
      validator_defs sample_defs)

section \<open>Empty strings\<close>

text \<open>
  C10. An empty-string reward is treated as no reward by both validators: \<open>clean\<close>
  gives the same result on a habit whose reward is the empty string as on the same
  habit with reward \<open>None\<close>, and accepts a pleasant habit with an empty-string reward
  and no related habit; \<open>validate\<close> raises an error on a dictionary whose reward is
  the empty string exactly when it raises it on the dictionary without the reward key
  or with reward \<open>None\<close>, and accepts \<open>is_pleasant = True\<close> with an empty-string
  reward.
\<close>

theorem empty_reward_counts_as_absent:
  "clean (Habit i u p tm a pl rel f (Some []) d pub c)
     = clean (Habit i u p tm a pl rel f None d pub c)
   \<and> clean (Habit i u p tm a True None f (Some []) d pub c) = Inr ()
   \<and> (validate (data\<lparr>d_reward := Some (Some [])\<rparr>) = Inl e
        \<longleftrightarrow> validate (data\<lparr>d_reward := None\<rparr>) = Inl e)
   \<and> (validate (data\<lparr>d_reward := Some (Some [])\<rparr>) = Inl e
        \<longleftrightarrow> validate (data\<lparr>d_reward := Some None\<rparr>) = Inl e)
   \<and> validate (data\<lparr>d_is_pleasant := Some True, d_reward := Some (Some []),
                    d_related_habit := None\<rparr>)
       = Inr (data\<lparr>d_is_pleasant := Some True, d_reward := Some (Some []),
                    d_related_habit := None\<rparr>)"
  by (simp add: clean_def validate_def Let_def truthy_str_def truthy_obj_def
      related_not_pleasant_def dict_get_def dict_get_default_def)

theorem empty_reward_witness:
  "reward quiet_nap = Some [] \<and> is_pleasant quiet_nap
   \<and> clean quiet_nap = Inr () \<and> full_clean quiet_nap = Inr ()
   \<and> validate (full_data quiet_nap) = Inr (full_data quiet_nap)
   \<and> validate ((full_data run_then_work)\<lparr>d_reward := Some (Some [])\<rparr>)
       = Inl RelatedHabitNotPleasant
   \<and> validate ((full_data run_then_work)\<lparr>d_reward := None\<rparr>) = Inl RelatedHabitNotPleasant"
  using empty_reward_counts_as_absent [of 17 anna None eight_oclock "''nap''" True None 1 1
      False created_day "full_data quiet_nap" PleasantHabitHasReward]
    empty_reward_counts_as_absent [of 17 anna None eight_oclock "''nap''" True None 1 1
      False created_day "full_data run_then_work" RelatedHabitNotPleasant]
  by (simp add: full_clean_def clean_fields_def optional_char_field_def
      required_char_field_def frequency_field_def duration_field_def MinValueValidator_def
      MaxValueValidator_def MaxLengthValidator_def positive_integer_field_min_def
      validator_defs sample_defs)

end
